theory Spec2Isabelle
  imports Complex_Main
begin

section \<open>JavaScript strings and numbers\<close>

text \<open>
  A JavaScript string is a sequence of UTF-16 code units. A code unit is modelled by its
  number, so that every character the source mentions (ASCII letters and digits, the
  Unicode white space of \<open>\s\<close> and \<open>trim\<close>, the combining marks U+0300 to U+036F, the
  cedilla letters U+015F and U+0163) can be written down. \<open>js\<close> turns an Isabelle
  literal into such a string.
\<close>

type_synonym jschar = nat
type_synonym jsstring = "jschar list"

definition js :: "string \<Rightarrow> jsstring" where
  "js s = map of_char s"

text \<open>
  The numbers computed by the validators are small integers or \<open>NaN\<close>. Arithmetic
  propagates \<open>NaN\<close>; \<open>===\<close> is false as soon as one side is \<open>NaN\<close>.
\<close>

datatype jsnum = Num int | NaN

fun jadd :: "jsnum \<Rightarrow> jsnum \<Rightarrow> jsnum" where
  "jadd (Num a) (Num b) = Num (a + b)"
| "jadd _ _ = NaN"

fun jmul :: "jsnum \<Rightarrow> jsnum \<Rightarrow> jsnum" where
  "jmul (Num a) (Num b) = Num (a * b)"
| "jmul _ _ = NaN"

text \<open>The remainder operator \<open>%\<close> truncates: the result has the sign of the dividend.\<close>

fun jrem :: "jsnum \<Rightarrow> jsnum \<Rightarrow> jsnum" where
  "jrem (Num a) (Num b) = (if b = 0 then NaN else Num (sgn a * (\<bar>a\<bar> mod \<bar>b\<bar>)))"
| "jrem _ _ = NaN"

fun strict_eq :: "jsnum \<Rightarrow> jsnum \<Rightarrow> bool" where
  "strict_eq (Num a) (Num b) = (a = b)"
| "strict_eq _ _ = False"

text \<open>\<open>\d\<close> without the \<open>u\<close> flag: the ten ASCII digits.\<close>

definition isDigit :: "jschar \<Rightarrow> bool" where
  "isDigit c \<longleftrightarrow> 48 \<le> c \<and> c \<le> 57"

definition digitVal :: "jschar \<Rightarrow> nat" where
  "digitVal c = c - 48"

text \<open>
  \<open>parseInt(code[i])\<close>: \<open>code[i]\<close> is a string of one code unit, or \<open>undefined\<close> out of
  range. \<open>parseInt\<close> of a one-unit string is its digit value, and \<open>NaN\<close> for every
  other unit (white space, a sign or a letter alone have no digits) and for
  \<open>undefined\<close>.
\<close>

definition parseIntChar :: "jschar \<Rightarrow> jsnum" where
  "parseIntChar c = (if isDigit c then Num (int (digitVal c)) else NaN)"

definition parseIntAt :: "jsstring \<Rightarrow> nat \<Rightarrow> jsnum" where
  "parseIntAt s i = (if i < length s then parseIntChar (s ! i) else NaN)"

text \<open>
  White space as \<open>trim\<close>, \<open>\s\<close> and the string-to-number conversion see it: the
  WhiteSpace and LineTerminator code points (TAB, LF, VT, FF, CR, SP, NBSP, U+1680,
  U+2000 to U+200A, U+2028, U+2029, U+202F, U+205F, U+3000, U+FEFF).
\<close>

definition isWhiteSpace :: "jschar \<Rightarrow> bool" where
  "isWhiteSpace c \<longleftrightarrow>
     c \<in> {9, 10, 11, 12, 13, 32, 160, 0x1680, 0x2028, 0x2029, 0x202F, 0x205F, 0x3000, 0xFEFF}
     \<or> (0x2000 \<le> c \<and> c \<le> 0x200A)"

definition trim :: "jsstring \<Rightarrow> jsstring" where
  "trim s = rev (dropWhile isWhiteSpace (rev (dropWhile isWhiteSpace s)))"

text \<open>
  \<open>isNaN(Number(s))\<close> for a string \<open>s\<close>. \<open>Number\<close> is \<open>NaN\<close> exactly when \<open>s\<close> is not a
  StringNumericLiteral: optional white space around nothing at all (the value 0), or
  around a signed decimal literal (\<open>Infinity\<close>, digits with an optional fraction and
  exponent) or an unsigned binary, octal or hexadecimal integer literal.
\<close>

definition isHexDigit :: "jschar \<Rightarrow> bool" where
  "isHexDigit c \<longleftrightarrow> isDigit c \<or> (97 \<le> c \<and> c \<le> 102) \<or> (65 \<le> c \<and> c \<le> 70)"

definition isOctalDigit :: "jschar \<Rightarrow> bool" where
  "isOctalDigit c \<longleftrightarrow> 48 \<le> c \<and> c \<le> 55"

definition isBinaryDigit :: "jschar \<Rightarrow> bool" where
  "isBinaryDigit c \<longleftrightarrow> c = 48 \<or> c = 49"

fun dropSign :: "jsstring \<Rightarrow> jsstring" where
  "dropSign (c # r) = (if c = 43 \<or> c = 45 then r else c # r)"
| "dropSign [] = []"

fun isExponentPartOpt :: "jsstring \<Rightarrow> bool" where
  "isExponentPartOpt [] = True"
| "isExponentPartOpt (e # r) =
     ((e = 101 \<or> e = 69) \<and> dropSign r \<noteq> [] \<and> list_all isDigit (dropSign r))"

definition isStrUnsignedDecimalLiteral :: "jsstring \<Rightarrow> bool" where
  "isStrUnsignedDecimalLiteral u =
     (u = js ''Infinity'' \<or>
      (let ip = takeWhile isDigit u; rest = dropWhile isDigit u
       in case rest of
            [] \<Rightarrow> ip \<noteq> []
          | c # r \<Rightarrow>
              if c = 46
              then (ip \<noteq> [] \<or> takeWhile isDigit r \<noteq> []) \<and> isExponentPartOpt (dropWhile isDigit r)
              else ip \<noteq> [] \<and> isExponentPartOpt rest))"

fun isNonDecimalIntegerLiteral :: "jsstring \<Rightarrow> bool" where
  "isNonDecimalIntegerLiteral (z # p # ds) =
     (z = 48 \<and> ds \<noteq> [] \<and>
      (if p = 98 \<or> p = 66 then list_all isBinaryDigit ds
       else if p = 111 \<or> p = 79 then list_all isOctalDigit ds
       else if p = 120 \<or> p = 88 then list_all isHexDigit ds
       else False))"
| "isNonDecimalIntegerLiteral _ = False"

definition isNumericString :: "jsstring \<Rightarrow> bool" where
  "isNumericString s =
     (let t = trim s
      in t = [] \<or> isStrUnsignedDecimalLiteral (dropSign t) \<or> isNonDecimalIntegerLiteral t)"

text \<open>
  \<open>Number(code.slice(-1))\<close>: the argument is the last code unit as a string, or the empty
  string when \<open>code\<close> is empty. The empty string and a white-space unit convert to 0, a
  digit to its value, any other single unit to \<open>NaN\<close>.
\<close>

definition numberOfLast :: "jsstring \<Rightarrow> jsnum" where
  "numberOfLast code =
     (if code = [] then Num 0
      else if isWhiteSpace (last code) then Num 0
      else if isDigit (last code) then Num (int (digitVal (last code)))
      else NaN)"

text \<open>Exceptions are values: a thrown \<open>Error\<close> carries its message.\<close>

datatype error = Error string | AnafValidationError string

section \<open>src/utils/validators.ts\<close>

subsection \<open>isValidCNP\<close>

text \<open>\<open>/^\d{13}$/.test(code)\<close>: no \<open>m\<close> flag, so \<open>$\<close> is the very end of the string.\<close>

definition test_d13 :: "jsstring \<Rightarrow> bool" where
  "test_d13 code \<longleftrightarrow> length code = 13 \<and> list_all isDigit code"

definition controlKey :: jsstring where
  "controlKey = js ''279146358279''"

text \<open>The \<open>for\<close> loop over \<open>i = 0 .. 11\<close>, threading \<open>sum\<close>.\<close>

definition cnp_sum :: "jsstring \<Rightarrow> jsnum" where
  "cnp_sum code =
     fold (\<lambda>i sum. jadd sum (jmul (parseIntAt code i) (parseIntAt controlKey i)))
       [0..<12] (Num 0)"

definition isValidCNP :: "jsstring \<Rightarrow> bool" where
  "isValidCNP code =
     (if \<not> test_d13 code then False
      else if code = js ''0000000000000'' then True
      else
        let remainder = jrem (cnp_sum code) (Num 11);
            controlDigit = (if strict_eq remainder (Num 10) then Num 1 else remainder)
        in if \<not> strict_eq (parseIntAt code 12) controlDigit then False
           else
             let sex = parseIntAt code 0
             in if sex \<notin> set (map Num [1, 2, 3, 4, 5, 6, 7, 8, 9]) then False
                else True)"

subsection \<open>stripTaxIdPrefix, isValidCIF, normalizeVatNumber\<close>

text \<open>
  \<open>value.replace(/ro/i, '')\<close>: the pattern has no anchor and no \<open>g\<close> flag, so the first
  occurrence of \<open>ro\<close> in any casing is removed, wherever it stands.
\<close>

fun replace_ro :: "jsstring \<Rightarrow> jsstring" where
  "replace_ro (a # b # rest) =
     (if (a = 114 \<or> a = 82) \<and> (b = 111 \<or> b = 79) then rest
      else a # replace_ro (b # rest))"
| "replace_ro s = s"


definition stripTaxIdPrefix :: "jsstring \<Rightarrow> error + jsstring" where
  "stripTaxIdPrefix v =
     (if v = [] then Inl (Error ''Company VAT number is missing.'')
      else Inr (replace_ro v))"

text \<open>
  \<open>while (code.length != 9) code = '0' + code\<close>. The loop does not end on a longer
  string, so it is a partial function: \<open>None\<close> is the run that never returns.
\<close>

partial_function (option) padLoop :: "jsstring \<Rightarrow> jsstring option" where
  "padLoop code = (if length code \<noteq> 9 then padLoop (48 # code) else Some code)"

definition cif_sum :: "jsstring \<Rightarrow> jsnum" where
  "cif_sum code =
     jadd (jadd (jadd (jadd (jadd (jadd (jadd (jadd
       (jmul (parseIntAt code 0) (Num 7))
       (jmul (parseIntAt code 1) (Num 5)))
       (jmul (parseIntAt code 2) (Num 3)))
       (jmul (parseIntAt code 3) (Num 2)))
       (jmul (parseIntAt code 4) (Num 1)))
       (jmul (parseIntAt code 5) (Num 7)))
       (jmul (parseIntAt code 6) (Num 5)))
       (jmul (parseIntAt code 7) (Num 3)))
       (jmul (parseIntAt code 8) (Num 2))"

definition cif_check :: "jsnum \<Rightarrow> jsstring \<Rightarrow> bool" where
  "cif_check controlDigit code =
     (let sum = jmul (cif_sum code) (Num 10);
          rest = jrem sum (Num 11);
          rest = (if strict_eq rest (Num 10) then Num 0 else rest)
      in strict_eq rest controlDigit)"

definition isValidCIF :: "jsstring \<Rightarrow> (error + bool) option" where
  "isValidCIF v =
     (case stripTaxIdPrefix v of
        Inl e \<Rightarrow> Some (Inl e)
      | Inr code \<Rightarrow>
          if \<not> isNumericString code then Some (Inr False)
          else if length code > 10 then Some (Inr False)
          else
            let controlDigit = numberOfLast code
            in case padLoop (butlast code) of
                 None \<Rightarrow> None
               | Some code \<Rightarrow> Some (Inr (cif_check controlDigit code)))"

definition normalizeVatNumber :: "jsstring \<Rightarrow> (error + jsstring) option" where
  "normalizeVatNumber v =
     (if v = [] then Some (Inl (Error ''Company VAT number is missing.''))
      else if isValidCNP v then Some (Inr v)
      else
        case isValidCIF v of
          None \<Rightarrow> None
        | Some (Inl e) \<Rightarrow> Some (Inl e)
        | Some (Inr True) \<Rightarrow>
            (case stripTaxIdPrefix v of
               Inl e \<Rightarrow> Some (Inl e)
             | Inr stripped \<Rightarrow> Some (Inr (js ''RO'' @ stripped)))
        | Some (Inr False) \<Rightarrow> Some (Inr v))"

subsection \<open>The personal-code check as the specification words it\<close>

text \<open>
  The first 12 digits are multiplied pairwise by the key 2 7 9 1 4 6 3 5 8 2 7 9, the
  products are summed and reduced mod 11; a remainder of 10 gives the expected digit 1.
\<close>

definition cnp_key :: "nat list" where
  "cnp_key = [2, 7, 9, 1, 4, 6, 3, 5, 8, 2, 7, 9]"

definition cnp_expected_digit :: "jsstring \<Rightarrow> nat" where
  "cnp_expected_digit s =
     (let r = sum_list (map2 (*) (map digitVal (take 12 s)) cnp_key) mod 11
      in if r = 10 then 1 else r)"

definition is13Digits :: "jsstring \<Rightarrow> bool" where
  "is13Digits s \<longleftrightarrow> length s = 13 \<and> (\<forall>c \<in> set s. isDigit c)"

section \<open>src/ubl/address-sanitizer.ts\<close>

subsection \<open>The string methods of the run time\<close>

text \<open>
  \<open>toLowerCase\<close> and \<open>normalize('NFD')\<close> belong to the JavaScript run time, not to this
  repository. They are modelled on Basic Latin, the Latin-1 Supplement and the Romanian
  letters U+0102, U+0103, U+015E, U+015F, U+0162, U+0163 and U+0218 to U+021B, where
  lower-casing maps one unit to one unit and a canonical decomposition is a base letter
  followed by one combining mark. Code units outside this range are left as they are;
  the statements below evaluate the two functions only inside it.
\<close>

definition lowerUnit :: "jschar \<Rightarrow> jschar" where
  "lowerUnit c =
     (if (65 \<le> c \<and> c \<le> 90) \<or> (0xC0 \<le> c \<and> c \<le> 0xDE \<and> c \<noteq> 0xD7) then c + 32
      else if c \<in> {0x102, 0x15E, 0x162, 0x218, 0x21A} then c + 1
      else c)"

definition toLowerCase :: "jsstring \<Rightarrow> jsstring" where
  "toLowerCase s = map lowerUnit s"

definition nfd_table :: "(jschar \<times> jsstring) list" where
  "nfd_table =
     [
      (0xC0, [0x41, 0x300]), (0xC1, [0x41, 0x301]), (0xC2, [0x41, 0x302]), (0xC3, [0x41, 0x303]),
      (0xC4, [0x41, 0x308]), (0xC5, [0x41, 0x30A]), (0xC7, [0x43, 0x327]), (0xC8, [0x45, 0x300]),
      (0xC9, [0x45, 0x301]), (0xCA, [0x45, 0x302]), (0xCB, [0x45, 0x308]), (0xCC, [0x49, 0x300]),
      (0xCD, [0x49, 0x301]), (0xCE, [0x49, 0x302]), (0xCF, [0x49, 0x308]), (0xD1, [0x4E, 0x303]),
      (0xD2, [0x4F, 0x300]), (0xD3, [0x4F, 0x301]), (0xD4, [0x4F, 0x302]), (0xD5, [0x4F, 0x303]),
      (0xD6, [0x4F, 0x308]), (0xD9, [0x55, 0x300]), (0xDA, [0x55, 0x301]), (0xDB, [0x55, 0x302]),
      (0xDC, [0x55, 0x308]), (0xDD, [0x59, 0x301]), (0xE0, [0x61, 0x300]), (0xE1, [0x61, 0x301]),
      (0xE2, [0x61, 0x302]), (0xE3, [0x61, 0x303]), (0xE4, [0x61, 0x308]), (0xE5, [0x61, 0x30A]),
      (0xE7, [0x63, 0x327]), (0xE8, [0x65, 0x300]), (0xE9, [0x65, 0x301]), (0xEA, [0x65, 0x302]),
      (0xEB, [0x65, 0x308]), (0xEC, [0x69, 0x300]), (0xED, [0x69, 0x301]), (0xEE, [0x69, 0x302]),
      (0xEF, [0x69, 0x308]), (0xF1, [0x6E, 0x303]), (0xF2, [0x6F, 0x300]), (0xF3, [0x6F, 0x301]),
      (0xF4, [0x6F, 0x302]), (0xF5, [0x6F, 0x303]), (0xF6, [0x6F, 0x308]), (0xF9, [0x75, 0x300]),
      (0xFA, [0x75, 0x301]), (0xFB, [0x75, 0x302]), (0xFC, [0x75, 0x308]), (0xFD, [0x79, 0x301]),
      (0xFF, [0x79, 0x308]), (0x102, [0x41, 0x306]), (0x103, [0x61, 0x306]), (0x15E, [0x53, 0x327]),
      (0x15F, [0x73, 0x327]), (0x162, [0x54, 0x327]), (0x163, [0x74, 0x327]), (0x218, [0x53, 0x326]),
      (0x219, [0x73, 0x326]), (0x21A, [0x54, 0x326]), (0x21B, [0x74, 0x326])
     ]"

definition nfdUnit :: "jschar \<Rightarrow> jsstring" where
  "nfdUnit c = (case map_of nfd_table c of Some d \<Rightarrow> d | None \<Rightarrow> [c])"

definition normalizeNFD :: "jsstring \<Rightarrow> jsstring" where
  "normalizeNFD s = concat (map nfdUnit s)"

subsection \<open>Regular expressions\<close>

text \<open>\<open>\w\<close> is \<open>[A-Za-z0-9_]\<close>; \<open>\b\<close> holds between a \<open>\w\<close> unit and a unit that is
  not \<open>\w\<close>, the two ends of the string counting as not \<open>\w\<close>.\<close>

definition isWordChar :: "jschar \<Rightarrow> bool" where
  "isWordChar c \<longleftrightarrow>
     (97 \<le> c \<and> c \<le> 122) \<or> (65 \<le> c \<and> c \<le> 90) \<or> isDigit c \<or> c = 95"

definition startsWord :: "jsstring \<Rightarrow> bool" where
  "startsWord s = (case s of [] \<Rightarrow> False | c # _ \<Rightarrow> isWordChar c)"

definition wordBoundary :: "bool \<Rightarrow> jsstring \<Rightarrow> bool" where
  "wordBoundary prevW s \<longleftrightarrow> prevW \<noteq> startsWord s"

text \<open>\<open>.replace(/[class]+/g, ' ')\<close>: every maximal run of units of the class becomes one
  space. The flag says whether the previous unit belonged to the run.\<close>

fun collapseRuns :: "(jschar \<Rightarrow> bool) \<Rightarrow> bool \<Rightarrow> jsstring \<Rightarrow> jsstring" where
  "collapseRuns P inRun [] = []"
| "collapseRuns P inRun (c # cs) =
     (if P c then (if inRun then collapseRuns P True cs else 32 # collapseRuns P True cs)
      else c # collapseRuns P False cs)"

definition isSeparator :: "jschar \<Rightarrow> bool" where
  "isSeparator c \<longleftrightarrow> c = 46 \<or> c = 95 \<or> c = 44 \<or> c = 45"

text \<open>
  \<open>.replace(/\b(w1|w2|...)\b/g, rep)\<close> for literal alternatives. An optional group of the
  source is written out as its alternatives in the order the backtracking matcher tries
  them (the greedy choice first): \<open>jude?t(ul)?\<close> is \<open>judetul\<close>, \<open>judet\<close>, \<open>judtul\<close>,
  \<open>judt\<close>. \<open>matchWordAt\<close> gives the length of the match at the head of the string;
  \<open>replaceWords\<close> scans from left to right, \<open>skip\<close> counting the units of a match still to
  be consumed and \<open>prevW\<close> telling whether the previous unit of the subject is \<open>\w\<close>.
\<close>

fun matchWordAt :: "jsstring list \<Rightarrow> bool \<Rightarrow> jsstring \<Rightarrow> nat option" where
  "matchWordAt [] prevW s = None"
| "matchWordAt (w # ws) prevW s =
     (if w \<noteq> [] \<and> take (length w) s = w \<and> wordBoundary prevW s
         \<and> wordBoundary (isWordChar (last w)) (drop (length w) s)
      then Some (length w)
      else matchWordAt ws prevW s)"

fun replaceWords :: "jsstring list \<Rightarrow> jsstring \<Rightarrow> nat \<Rightarrow> bool \<Rightarrow> jsstring \<Rightarrow> jsstring" where
  "replaceWords ws rep skip prevW [] = []"
| "replaceWords ws rep (Suc k) prevW (c # cs) = replaceWords ws rep k (isWordChar c) cs"
| "replaceWords ws rep 0 prevW (c # cs) =
     (case matchWordAt ws prevW (c # cs) of
        Some n \<Rightarrow> rep @ replaceWords ws rep (n - 1) (isWordChar c) cs
      | None \<Rightarrow> c # replaceWords ws rep 0 (isWordChar c) cs)"

definition replaceWord :: "jsstring list \<Rightarrow> jsstring \<Rightarrow> jsstring \<Rightarrow> jsstring" where
  "replaceWord ws rep s = replaceWords ws rep 0 False s"

subsection \<open>normalizeInput and stripAdministrativeWords\<close>

text \<open>The argument is \<open>None\<close> for \<open>null\<close>, \<open>undefined\<close> or a value that is not a string;
  so is the result for \<open>null\<close>.\<close>

definition normalizeInput :: "jsstring option \<Rightarrow> jsstring option" where
  "normalizeInput input =
     (case input of
        None \<Rightarrow> None
      | Some i \<Rightarrow>
          let s = trim i
          in if s = [] then None
             else Some (
               trim (
               replaceWord [js ''sectorul'', js ''sector'', js ''sect''] (js ''sectorul'') (
               replaceWord [js ''judetul'', js ''judet'', js ''judtul'', js ''judt''] (js ''judetul'') (
               replaceWord [js ''mun''] (js ''municipiul'') (
               collapseRuns isWhiteSpace False (
               collapseRuns isSeparator False (
               map (\<lambda>c. if c = 0x163 then 116 else c) (
               map (\<lambda>c. if c = 0x15F then 115 else c) (
               filter (\<lambda>c. \<not> (0x300 \<le> c \<and> c \<le> 0x36F)) (
               normalizeNFD (
               toLowerCase s))))))))))))"

definition stripAdministrativeWords :: "jsstring \<Rightarrow> jsstring" where
  "stripAdministrativeWords s =
     trim (
     collapseRuns isWhiteSpace False (
     replaceWord [js ''sectorul''] [] (
     replaceWord [js ''orasul'', js ''oras''] [] (
     replaceWord [js ''comuna''] [] (
     replaceWord [js ''municipiul''] [] (
     replaceWord [js ''judetul''] [] s))))))"

subsection \<open>extractSectorNumber and sanitizeBucharestSector\<close>

text \<open>
  \<open>/\b(?:sectorul|sector|s)\s*[:.-]?\s*0?([1-6])\b/\<close>. After the token, the classes
  \<open>\s\<close>, \<open>[:.-]\<close>, \<open>0\<close> and \<open>[1-6]\<close> are pairwise disjoint, so giving back units of a
  greedy \<open>\s*\<close>, of the optional separator or of the optional \<open>0\<close> never opens a new way
  to match: \<open>matchSectorTail\<close> takes each of them greedily. The alternatives of the token
  are tried in order, the next one when the tail fails.
\<close>

definition matchSectorTail :: "jsstring \<Rightarrow> nat option" where
  "matchSectorTail s =
     (let s1 = dropWhile isWhiteSpace s;
          s2 = (case s1 of [] \<Rightarrow> [] | c # r \<Rightarrow> if c = 58 \<or> c = 46 \<or> c = 45 then r else s1);
          s3 = dropWhile isWhiteSpace s2;
          s4 = (case s3 of [] \<Rightarrow> [] | c # r \<Rightarrow> if c = 48 then r else s3)
      in case s4 of
           [] \<Rightarrow> None
         | d # r \<Rightarrow> if 49 \<le> d \<and> d \<le> 54 \<and> wordBoundary True r then Some (d - 48) else None)"

fun matchSectorAt :: "jsstring list \<Rightarrow> bool \<Rightarrow> jsstring \<Rightarrow> nat option" where
  "matchSectorAt [] prevW s = None"
| "matchSectorAt (w # ws) prevW s =
     (if take (length w) s = w \<and> wordBoundary prevW s
      then (case matchSectorTail (drop (length w) s) of
              Some n \<Rightarrow> Some n
            | None \<Rightarrow> matchSectorAt ws prevW s)
      else matchSectorAt ws prevW s)"

fun searchSector :: "bool \<Rightarrow> jsstring \<Rightarrow> nat option" where
  "searchSector prevW [] = None"
| "searchSector prevW (c # cs) =
     (case matchSectorAt [js ''sectorul'', js ''sector'', js ''s''] prevW (c # cs) of
        Some n \<Rightarrow> Some n
      | None \<Rightarrow> searchSector (isWordChar c) cs)"

definition extractSectorNumber :: "jsstring \<Rightarrow> nat option" where
  "extractSectorNumber normalized =
     (case searchSector False normalized of
        None \<Rightarrow> None
      | Some n \<Rightarrow> if n \<ge> 1 \<and> n \<le> 6 then Some n else None)"

definition sanitizeBucharestSector :: "jsstring option \<Rightarrow> jsstring option" where
  "sanitizeBucharestSector cityInput =
     (case normalizeInput cityInput of
        None \<Rightarrow> None
      | Some normalized \<Rightarrow>
          if normalized = [] then None
          else (case extractSectorNumber normalized of
                  Some sector \<Rightarrow> Some (js ''SECTOR'' @ [48 + sector])
                | None \<Rightarrow> None))"

subsection \<open>sanitizeCounty\<close>

text \<open>Every value of the table is a non-empty string, so the tests \<open>if (direct)\<close> and
  \<open>if (fallback)\<close> of the source are tests for the presence of the key.\<close>

definition RO_ISO_3166_2_RO_MAP :: "(jsstring \<times> jsstring) list" where
  "RO_ISO_3166_2_RO_MAP =
     [
      (js ''bucuresti'', js ''RO-B''),
      (js ''buc'', js ''RO-B''),
      (js ''alba'', js ''RO-AB''),
      (js ''arges'', js ''RO-AG''),
      (js ''arad'', js ''RO-AR''),
      (js ''bacau'', js ''RO-BC''),
      (js ''bihor'', js ''RO-BH''),
      (js ''bistrita nasaud'', js ''RO-BN''),
      (js ''bistrita-nasaud'', js ''RO-BN''),
      (js ''botosani'', js ''RO-BT''),
      (js ''brasov'', js ''RO-BV''),
      (js ''braila'', js ''RO-BR''),
      (js ''buzau'', js ''RO-BZ''),
      (js ''caras severin'', js ''RO-CS''),
      (js ''carasseverin'', js ''RO-CS''),
      (js ''caras-severin'', js ''RO-CS''),
      (js ''calaras'', js ''RO-CL''),
      (js ''cluj'', js ''RO-CJ''),
      (js ''constanta'', js ''RO-CT''),
      (js ''covasna'', js ''RO-CV''),
      (js ''dambovita'', js ''RO-DB''),
      (js ''dimbovita'', js ''RO-DB''),
      (js ''dolj'', js ''RO-DJ''),
      (js ''galati'', js ''RO-GL''),
      (js ''giurgiu'', js ''RO-GR''),
      (js ''gorj'', js ''RO-GJ''),
      (js ''harghita'', js ''RO-HR''),
      (js ''hunedoara'', js ''RO-HD''),
      (js ''ialomita'', js ''RO-IL''),
      (js ''iasi'', js ''RO-IS''),
      (js ''ilfov'', js ''RO-IF''),
      (js ''maramures'', js ''RO-MM''),
      (js ''mehedinti'', js ''RO-MH''),
      (js ''mures'', js ''RO-MS''),
      (js ''neamt'', js ''RO-NT''),
      (js ''olt'', js ''RO-OT''),
      (js ''prahova'', js ''RO-PH''),
      (js ''satu mare'', js ''RO-SM''),
      (js ''satu-mare'', js ''RO-SM''),
      (js ''salaj'', js ''RO-SJ''),
      (js ''sibiu'', js ''RO-SB''),
      (js ''suceava'', js ''RO-SV''),
      (js ''teleorman'', js ''RO-TR''),
      (js ''timis'', js ''RO-TM''),
      (js ''tulcea'', js ''RO-TL''),
      (js ''valcea'', js ''RO-VL''),
      (js ''vilcea'', js ''RO-VL''),
      (js ''vaslui'', js ''RO-VS''),
      (js ''vrancea'', js ''RO-VN'')
     ]"

definition sanitizeCounty :: "jsstring option \<Rightarrow> jsstring option" where
  "sanitizeCounty input =
     (case normalizeInput input of
        None \<Rightarrow> None
      | Some normalized \<Rightarrow>
          if normalized = [] then None
          else
            case map_of RO_ISO_3166_2_RO_MAP normalized of
              Some direct \<Rightarrow> Some direct
            | None \<Rightarrow>
                let stripped = stripAdministrativeWords normalized
                in if stripped \<noteq> [] \<and> stripped \<noteq> normalized
                   then map_of RO_ISO_3166_2_RO_MAP stripped
                   else None)"

subsection \<open>isInternalInvoice\<close>

text \<open>
  \<open>DEFAULT_COUNTRY\<close> is imported from \<open>../constants\<close>, but the constants file at hand
  declares no such name (only \<open>DEFAULT_COUNTRY_CODE\<close>); it is a parameter of the model.
\<close>

definition isInternalInvoice :: "jsstring \<Rightarrow> jsstring \<Rightarrow> bool" where
  "isInternalInvoice DEFAULT_COUNTRY countryName \<longleftrightarrow>
     normalizeInput (Some countryName) = normalizeInput (Some DEFAULT_COUNTRY)"

section \<open>src/ubl/InvoiceBuilder.ts, seen through its unit test\<close>





subsection \<open>The structural validator\<close>









subsection \<open>The base invoice of the unit test and its mutations\<close>














subsection \<open>The tax aggregator\<close>












subsection \<open>The totals test of the unit test\<close>





section \<open>Properties of the validators\<close>

lemma length13_explode:
  "length (s :: jsstring) = 13 \<Longrightarrow>
     \<exists>a b c d e f g h i j k l m. s = [a, b, c, d, e, f, g, h, i, j, k, l, m]"
  by (auto simp: eval_nat_numeral length_Suc_conv)

lemma controlKey_units: "controlKey = [50, 55, 57, 49, 52, 54, 51, 53, 56, 50, 55, 57]"
  by (simp add: controlKey_def js_def)

lemma upt_12: "[0..<12] = [0, 1, 2, 3, 4, 5, 6, 7, 8, 9, 10, 11]"
  by (simp add: upt_conv_Cons)

lemma parseIntChar_digit: "isDigit c \<Longrightarrow> parseIntChar c = Num (int (digitVal c))"
  by (simp add: parseIntChar_def)

lemma cnp_sum_digits:
  assumes "is13Digits s"
  shows "cnp_sum s = Num (int (sum_list (map2 (*) (map digitVal (take 12 s)) cnp_key)))"
proof -
  from assms have "length s = 13"
    by (simp add: is13Digits_def)
  from length13_explode [OF this] obtain a b c d e f g h i j k l m
    where s: "s = [a, b, c, d, e, f, g, h, i, j, k, l, m]"
    by (elim exE) blast
  from assms have dig: "isDigit a" "isDigit b" "isDigit c" "isDigit d" "isDigit e" "isDigit f"
    "isDigit g" "isDigit h" "isDigit i" "isDigit j" "isDigit k" "isDigit l"
    unfolding is13Digits_def s by simp_all
  have key: "map parseIntChar [50, 55, 57, 49, 52, 54, 51, 53, 56, 50, 55, 57]
      = map Num [2, 7, 9, 1, 4, 6, 3, 5, 8, 2, 7, 9]"
    by (simp add: parseIntChar_def isDigit_def digitVal_def)
  show ?thesis
    unfolding cnp_sum_def upt_12 controlKey_units s
    using key by (simp add: parseIntAt_def parseIntChar_digit dig cnp_key_def)
qed

lemma test_d13_iff: "test_d13 s \<longleftrightarrow> is13Digits s"
  by (simp add: test_d13_def is13Digits_def list_all_iff)

lemma jrem_nat: "jrem (Num (int n)) (Num 11) = Num (int (n mod 11))"
  by (cases "n = 0") (simp_all add: zmod_int)

lemma parseIntAt_digit:
  "i < length s \<Longrightarrow> isDigit (s ! i) \<Longrightarrow> parseIntAt s i = Num (int (digitVal (s ! i)))"
  by (simp add: parseIntAt_def parseIntChar_digit)

lemma sex_range: "Num (int d) \<in> set (map Num [1, 2, 3, 4, 5, 6, 7, 8, 9]) \<longleftrightarrow> d \<in> {1..9}"
  by auto

text \<open>
  Claim C4. For every 13-digit string \<open>s\<close>, \<open>isValidCNP s\<close> is true exactly when \<open>s\<close>
  is the all-zero code, or the weighted checksum of the first 12 digits (key
  2 7 9 1 4 6 3 5 8 2 7 9, sum mod 11, remainder 10 read as 1) equals the 13th digit and
  the first digit is in 1 to 9. Every string that is not exactly 13 digits is rejected.
\<close>

theorem isValidCNP_spec:
  "(is13Digits s \<longrightarrow>
      (isValidCNP s \<longleftrightarrow>
         s = js ''0000000000000'' \<or>
         (cnp_expected_digit s = digitVal (s ! 12) \<and> digitVal (s ! 0) \<in> {1..9})))
   \<and> (\<not> is13Digits s \<longrightarrow> \<not> isValidCNP s)"
proof (cases "is13Digits s")
  case False
  then show ?thesis
    by (simp add: isValidCNP_def test_d13_iff)
next
  case True
  then have len: "12 < length s" "0 < length s"
    and d12: "isDigit (s ! 12)" and d0: "isDigit (s ! 0)"
    by (simp_all add: is13Digits_def)
  have p12: "parseIntAt s 12 = Num (int (digitVal (s ! 12)))"
    using len d12 by (simp add: parseIntAt_digit)
  have p0: "parseIntAt s 0 = Num (int (digitVal (s ! 0)))"
    using len d0 by (simp add: parseIntAt_digit)
  define S where "S = sum_list (map2 (*) (map digitVal (take 12 s)) cnp_key)"
  have rem: "jrem (cnp_sum s) (Num 11) = Num (int (S mod 11))"
    using True by (simp only: cnp_sum_digits S_def jrem_nat)
  have cd: "(if strict_eq (Num (int (S mod 11))) (Num 10) then Num 1 else Num (int (S mod 11)))
      = Num (int (cnp_expected_digit s))"
    by (simp add: cnp_expected_digit_def S_def Let_def)
  have "isValidCNP s \<longleftrightarrow>
      s = js ''0000000000000'' \<or>
      (strict_eq (Num (int (digitVal (s ! 12)))) (Num (int (cnp_expected_digit s)))
        \<and> Num (int (digitVal (s ! 0))) \<in> set (map Num [1, 2, 3, 4, 5, 6, 7, 8, 9]))"
    using True unfolding isValidCNP_def test_d13_iff rem Let_def cd p12 p0 by auto
  then show ?thesis
    using True unfolding sex_range by auto
qed

theorem isValidCNP_spec_witness:
  "is13Digits (js ''1800101221144'') \<and> isValidCNP (js ''1800101221144'')
   \<and> \<not> is13Digits (js ''180010122114'') \<and> \<not> isValidCNP (js ''180010122114'')"
  using isValidCNP_spec [of "js ''1800101221144''"] isValidCNP_spec [of "js ''180010122114''"]
  by (simp add: is13Digits_def js_def isDigit_def cnp_expected_digit_def cnp_key_def digitVal_def)

subsection \<open>The padding loop returns\<close>

lemma replicate_pad_step:
  assumes "m < 9"
  shows "replicate (9 - Suc m) x @ x # xs = replicate (9 - m) x @ xs"
proof -
  from assms have "9 - m = Suc (9 - Suc m)" by simp
  then show ?thesis by (simp add: replicate_app_Cons_same)
qed

lemma padLoop_pads:
  "length code \<le> 9 \<Longrightarrow> padLoop code = Some (replicate (9 - length code) 48 @ code)"
proof (induction "9 - length code" arbitrary: code)
  case 0
  then show ?case by (subst padLoop.simps) simp
next
  case (Suc n)
  from Suc.hyps(2) have lt: "length code < 9" by simp
  have "n = 9 - length (48 # code)" using Suc.hyps(2) by simp
  moreover have "length (48 # code) \<le> 9" using lt by simp
  ultimately have "padLoop (48 # code) = Some (replicate (9 - length (48 # code)) 48 @ 48 # code)"
    by (rule Suc.hyps(1))
  then have "padLoop (48 # code) = Some (replicate (9 - length code) 48 @ code)"
    using replicate_pad_step [OF lt] by simp
  then show ?case using lt by (subst padLoop.simps) simp
qed

lemma replicate_numeral: "replicate (numeral k) x = x # replicate (pred_numeral k) x"
  by (simp add: numeral_eq_Suc)

lemmas cif_eval =
  isValidCIF_def stripTaxIdPrefix_def js_def isNumericString_def trim_def isWhiteSpace_def
  isStrUnsignedDecimalLiteral_def isDigit_def padLoop_pads replicate_numeral numberOfLast_def
  digitVal_def cif_check_def cif_sum_def parseIntAt_def parseIntChar_def Let_def
  normalizeVatNumber_def isValidCNP_def test_d13_def

subsection \<open>isValidCIF returns for every non-empty string\<close>

lemma isValidCIF_returns:
  assumes "v \<noteq> []"
  shows "\<exists>b. isValidCIF v = Some (Inr b)"
proof -
  have strip: "stripTaxIdPrefix v = Inr (replace_ro v)"
    using assms by (simp add: stripTaxIdPrefix_def)
  show ?thesis
  proof (cases "isNumericString (replace_ro v) \<and> length (replace_ro v) \<le> 10")
    case False
    then show ?thesis
      by (auto simp: isValidCIF_def strip)
  next
    case True
    then have "length (butlast (replace_ro v)) \<le> 9"
      by (simp add: length_butlast) arith
    then have "padLoop (butlast (replace_ro v))
        = Some (replicate (9 - length (butlast (replace_ro v))) 48 @ butlast (replace_ro v))"
      by (rule padLoop_pads)
    then show ?thesis
      using True by (simp add: isValidCIF_def strip Let_def)
  qed
qed

lemma isValidCIF_cases:
  assumes "v \<noteq> []"
  shows "isValidCIF v = Some (Inr True) \<or> isValidCIF v = Some (Inr False)"
  using isValidCIF_returns [OF assms] by auto

lemma isValidCIF_same_stripped:
  assumes "a \<noteq> []" "b \<noteq> []" "replace_ro a = replace_ro b"
  shows "isValidCIF a = isValidCIF b"
  using assms by (simp add: isValidCIF_def stripTaxIdPrefix_def)

lemma replace_ro_RO: "replace_ro (js ''RO'' @ s) = s"
  by (simp add: js_def)

lemma isValidCNP_RO: "\<not> isValidCNP (js ''RO'' @ s)"
  by (simp add: isValidCNP_def test_d13_def js_def isDigit_def)

lemma isValidCIF_too_long:
  assumes "length (replace_ro v) > 10"
  shows "isValidCIF v = Some (Inr False)"
proof -
  from assms have "v \<noteq> []" by auto
  with assms show ?thesis
    by (simp add: isValidCIF_def stripTaxIdPrefix_def)
qed

text \<open>
  Claim C3. \<open>isValidCIF\<close> strips only a leading \<open>RO\<close> and rejects every string that then
  holds anything but at most 10 decimal digits. The code does not: the pattern \<open>/ro/i\<close>
  is not anchored, so the \<open>ro\<close> inside \<open>160ro796\<close> is removed and the string is accepted
  as the valid code 160796; and \<open>isNaN(Number(code))\<close> lets a trailing space through, so
  a zero followed by a space is accepted as well.
\<close>

theorem isValidCIF_accepts_inner_ro:
  "isValidCIF (js ''160ro796'') = Some (Inr True) \<and> isValidCIF (js ''0 '') = Some (Inr True)"
  by (simp add: cif_eval)




text \<open>
  Claim C10. \<open>normalizeVatNumber\<close> is idempotent: on a non-empty string it returns a
  string on which it returns that same string.
\<close>

theorem normalizeVatNumber_idempotent:
  assumes "v \<noteq> []"
  shows "\<exists>r. normalizeVatNumber v = Some (Inr r) \<and> normalizeVatNumber r = Some (Inr r)"
proof (cases "isValidCNP v")
  case True
  with assms show ?thesis by (simp add: normalizeVatNumber_def)
next
  case notcnp: False
  from isValidCIF_cases [OF assms] show ?thesis
  proof
    assume cif: "isValidCIF v = Some (Inr True)"
    define r where "r = js ''RO'' @ replace_ro v"
    have r_ne: "r \<noteq> []" by (simp add: r_def js_def)
    have first: "normalizeVatNumber v = Some (Inr r)"
      using assms notcnp cif by (simp add: normalizeVatNumber_def stripTaxIdPrefix_def r_def)
    have strip_r: "replace_ro r = replace_ro v"
      by (simp add: r_def replace_ro_RO)
    have "isValidCIF r = Some (Inr True)"
      using isValidCIF_same_stripped [OF r_ne assms strip_r] cif by simp
    moreover have "\<not> isValidCNP r"
      by (simp add: r_def isValidCNP_RO)
    ultimately have "normalizeVatNumber r = Some (Inr (js ''RO'' @ replace_ro r))"
      using r_ne by (simp add: normalizeVatNumber_def stripTaxIdPrefix_def)
    then have "normalizeVatNumber r = Some (Inr r)"
      unfolding strip_r by (simp only: r_def)
    with first show ?thesis by blast
  next
    assume "isValidCIF v = Some (Inr False)"
    with assms notcnp have "normalizeVatNumber v = Some (Inr v)"
      by (simp add: normalizeVatNumber_def)
    then show ?thesis by blast
  qed
qed

theorem normalizeVatNumber_idempotent_witness:
  "js ''160796'' \<noteq> [] \<and>
   normalizeVatNumber (js ''160796'') = Some (Inr (js ''RO160796'')) \<and>
   normalizeVatNumber (js ''RO160796'') = Some (Inr (js ''RO160796''))"
  using normalizeVatNumber_idempotent [of "js ''160796''"]
  by (simp add: cif_eval)

section \<open>Properties of the address sanitizer\<close>

lemma nfdUnit_below: "c < 0xC0 \<Longrightarrow> nfdUnit c = [c]"
  by (simp add: nfdUnit_def nfd_table_def)

lemma nfdUnit_special:
  "nfdUnit 0xE2 = [0x61, 0x302]" "nfdUnit 0x21B = [0x74, 0x326]"
  by (simp_all add: nfdUnit_def nfd_table_def)

lemmas addr_eval =
  normalizeInput_def trim_def toLowerCase_def lowerUnit_def normalizeNFD_def nfdUnit_below
  nfdUnit_special isWhiteSpace_def isSeparator_def replaceWord_def wordBoundary_def startsWord_def
  isWordChar_def isDigit_def js_def Let_def stripAdministrativeWords_def matchSectorTail_def
  extractSectorNumber_def sanitizeBucharestSector_def sanitizeCounty_def RO_ISO_3166_2_RO_MAP_def

text \<open>
  Claim C5. \<open>sanitizeCounty\<close> maps the canonical name of each of the 41 counties and of
  Bucharest to its ISO 3166-2 code, whatever the casing and the leading qualifier. The
  three spellings of Cluj and Bucharest resolve, but the county of Calarasi does not: its
  key in the table is misspelt \<open>calaras\<close>.
\<close>

theorem sanitizeCounty_calarasi:
  "sanitizeCounty (Some (js ''Calarasi'')) = None \<and>
   sanitizeCounty (Some (js ''calarasi'')) = None \<and>
   sanitizeCounty (Some (js ''Judetul Calarasi'')) = None \<and>
   sanitizeCounty (Some (js ''calaras'')) = Some (js ''RO-CL'') \<and>
   sanitizeCounty (Some (js ''Judetul Cluj'')) = Some (js ''RO-CJ'') \<and>
   sanitizeCounty (Some (js ''CLUJ'')) = Some (js ''RO-CJ'') \<and>
   sanitizeCounty (Some (js ''cluj'')) = Some (js ''RO-CJ'') \<and>
   sanitizeCounty (Some (js ''Bucuresti'')) = Some (js ''RO-B'')"
  by (simp add: addr_eval)



lemma sector_digit:
  assumes "n < 10"
  shows "sanitizeBucharestSector (Some (js ''Sector '' @ [48 + n]))
       = (if 1 \<le> n \<and> n \<le> 6 then Some (js ''SECTOR'' @ [48 + n]) else None)"
proof -
  from assms have "n = 0 \<or> n = 1 \<or> n = 2 \<or> n = 3 \<or> n = 4 \<or> n = 5 \<or> n = 6
      \<or> n = 7 \<or> n = 8 \<or> n = 9"
    by arith
  then show ?thesis
    by (elim disjE) (simp_all add: addr_eval)
qed

lemma sector_examples:
  "sanitizeBucharestSector (Some (js ''Sector 3'')) = Some (js ''SECTOR3'')"
  "sanitizeBucharestSector (Some (js ''sectorul 3'')) = Some (js ''SECTOR3'')"
  "sanitizeBucharestSector (Some (js ''S3'')) = Some (js ''SECTOR3'')"
  "sanitizeBucharestSector (Some (js ''sector-3'')) = Some (js ''SECTOR3'')"
  "sanitizeBucharestSector (Some (js ''sector.03'')) = Some (js ''SECTOR3'')"
  "sanitizeBucharestSector (Some (js ''sector 7'')) = None"
  "sanitizeBucharestSector (Some (js ''sector 0'')) = None"
  by (simp_all add: addr_eval)

text \<open>
  Claim C7. \<open>sanitizeBucharestSector\<close> gives \<open>SECTOR3\<close> for \<open>Sector 3\<close>, \<open>sectorul 3\<close>,
  \<open>S3\<close>, \<open>sector-3\<close> and \<open>sector.03\<close>, and nothing for \<open>sector 7\<close> and \<open>sector 0\<close>.
  For every decimal digit after \<open>Sector\<close>, the sector is found exactly when the digit
  is 1 to 6.
\<close>

theorem sanitizeBucharestSector_examples:
  "sanitizeBucharestSector (Some (js ''Sector 3'')) = Some (js ''SECTOR3'') \<and>
   sanitizeBucharestSector (Some (js ''sectorul 3'')) = Some (js ''SECTOR3'') \<and>
   sanitizeBucharestSector (Some (js ''S3'')) = Some (js ''SECTOR3'') \<and>
   sanitizeBucharestSector (Some (js ''sector-3'')) = Some (js ''SECTOR3'') \<and>
   sanitizeBucharestSector (Some (js ''sector.03'')) = Some (js ''SECTOR3'') \<and>
   sanitizeBucharestSector (Some (js ''sector 7'')) = None \<and>
   sanitizeBucharestSector (Some (js ''sector 0'')) = None \<and>
   (n < 10 \<longrightarrow>
      sanitizeBucharestSector (Some (js ''Sector '' @ [48 + n]))
        = (if 1 \<le> n \<and> n \<le> 6 then Some (js ''SECTOR'' @ [48 + n]) else None))"
  using sector_examples sector_digit [of n] by simp

theorem sanitizeBucharestSector_examples_witness:
  "(5 :: nat) < 10 \<and>
   sanitizeBucharestSector (Some (js ''Sector 5'')) = Some (js ''SECTOR5'') \<and>
   sanitizeBucharestSector (Some (js ''Sector 3'')) = Some (js ''SECTOR3'')"
  using sanitizeBucharestSector_examples [of 5] by (simp add: js_def)

text \<open>
  Claim C9. \<open>isInternalInvoice\<close> holds exactly when the normalized country name equals
  the normalized default country name. With a default that normalizes to \<open>romania\<close>, it
  holds for \<open>Romania\<close> and for the spelling with a-circumflex (U+00E2), and fails for
  \<open>Germany\<close>.
\<close>

theorem isInternalInvoice_spec:
  "(isInternalInvoice d c \<longleftrightarrow> normalizeInput (Some c) = normalizeInput (Some d)) \<and>
   (normalizeInput (Some d) = Some (js ''romania'') \<longrightarrow>
      isInternalInvoice d (js ''Romania'') \<and>
      isInternalInvoice d (js ''rom'' @ [0xE2] @ js ''nia'') \<and>
      \<not> isInternalInvoice d (js ''Germany''))"
proof -
  have "normalizeInput (Some (js ''Romania'')) = Some (js ''romania'')"
    by (simp add: addr_eval)
  moreover have "normalizeInput (Some (js ''rom'' @ [0xE2] @ js ''nia'')) = Some (js ''romania'')"
    by (simp add: addr_eval)
  moreover have "normalizeInput (Some (js ''Germany'')) = Some (js ''germany'')"
    by (simp add: addr_eval)
  moreover have "js ''germany'' \<noteq> js ''romania''"
    by (simp add: js_def)
  ultimately show ?thesis
    by (simp add: isInternalInvoice_def)
qed

theorem isInternalInvoice_spec_witness:
  "normalizeInput (Some (js ''Romania'')) = Some (js ''romania'') \<and>
   isInternalInvoice (js ''Romania'') (js ''Romania'') \<and>
   isInternalInvoice (js ''Romania'') (js ''rom'' @ [0xE2] @ js ''nia'') \<and>
   \<not> isInternalInvoice (js ''Romania'') (js ''Germany'')"
proof -
  have h: "normalizeInput (Some (js ''Romania'')) = Some (js ''romania'')"
    by (simp add: addr_eval)
  show ?thesis
    using isInternalInvoice_spec [of "js ''Romania''" "js ''Romania''"] h by simp
qed

section \<open>Properties of the invoice validation and of the tax totals\<close>
















end
